theory Spec2Isabelle
  imports Main "HOL-Library.Word" "HOL-Library.Finite_Map"
begin

unbundle bit_operations_syntax

section \<open>x25fs: the in-memory node tree, its file store and its snapshot codec\<close>

text \<open>
  The development follows the Go sources \<^verbatim>\<open>file.go\<close>, \<^verbatim>\<open>node.go\<close>,
  \<^verbatim>\<open>serialization.go\<close> and the inode allocator. Go's \<^verbatim>\<open>int\<close> is taken to be 64 bits
  wide (linux/amd64, the platform of the FUSE binding). Fixed-width integers are words:
  \<^verbatim>\<open>uint64\<close> and \<^verbatim>\<open>int64\<close> share the representation \<open>64 word\<close>, read with \<open>unat\<close>
  and \<open>sint\<close> respectively, so that a Go conversion between the two is the identity on
  the word. A Go slice is the list of its visible elements; \<^verbatim>\<open>len\<close> of a slice is always
  below \<open>2 ^ 63\<close>, so \<^verbatim>\<open>int64(len(s))\<close> is the number \<open>int (length s)\<close>. A runtime panic
  (slice bounds out of range, nil dereference, the allocator's explicit panic) is the
  outcome \<open>Panic\<close>. Every operation returns its outcome together with the state it leaves
  behind, because the Go methods mutate their receiver in place before they return.
  \<^verbatim>\<open>time.Now()\<close> is an argument of the operation.
\<close>

subsection \<open>Basic types\<close>

type_synonym byte = "8 word"
type_synonym uint32 = "32 word"
type_synonym uint64 = "64 word"
type_synonym int64 = "64 word"
type_synonym goint = "64 word"
type_synonym time = int
type_synonym FileMode = "32 word"

datatype errno = EPERM | ENOENT | EACCES | EEXIST | EINVAL | EFBIG

datatype 'a outcome = Ok 'a | Err errno | Panic

text \<open>\<^verbatim>\<open>fuse.Attr\<close> of bazil.org/fuse, field by field.\<close>

record Attr =
  Valid :: int
  Inode :: uint64
  Size :: uint64
  Blocks :: uint64
  Atime :: time
  Mtime :: time
  Ctime :: time
  Crtime :: time
  Mode :: FileMode
  Nlink :: uint32
  Uid :: uint32
  Gid :: uint32
  Rdev :: uint32
  Flags :: uint32
  BlockSize :: uint32

text \<open>The zero value of \<^verbatim>\<open>fuse.Attr\<close>, which a composite literal starts from.\<close>

definition zeroAttr :: Attr where
  "zeroAttr = \<lparr>Valid = 0, Inode = 0, Size = 0, Blocks = 0, Atime = 0, Mtime = 0, Ctime = 0,
     Crtime = 0, Mode = 0, Nlink = 0, Uid = 0, Gid = 0, Rdev = 0, Flags = 0, BlockSize = 0\<rparr>"

text \<open>The bits of \<^verbatim>\<open>os.FileMode\<close> the sources use, and \<^verbatim>\<open>FileMode.Perm\<close>.\<close>

definition ModeDir :: FileMode where "ModeDir = push_bit 31 1"
definition ModeSetuid :: FileMode where "ModeSetuid = push_bit 23 1"
definition ModeSetgid :: FileMode where "ModeSetgid = push_bit 22 1"
definition ModeSticky :: FileMode where "ModeSticky = push_bit 20 1"

text \<open>\<^verbatim>\<open>ModePerm = 0777\<close> (octal), that is 511.\<close>

definition ModePerm :: FileMode where "ModePerm = 511"

definition Perm :: "FileMode \<Rightarrow> FileMode" where
  "Perm m = m AND ModePerm"

text \<open>The request header: the caller's identity.\<close>

record Header =
  hUid :: uint32
  hGid :: uint32

subsection \<open>Slices\<close>

text \<open>
  \<^verbatim>\<open>make([]byte, n)\<close>, \<^verbatim>\<open>copy(dst, src)\<close> and the slice expressions \<^verbatim>\<open>s[:hi]\<close>,
  \<^verbatim>\<open>s[lo:]\<close>, \<^verbatim>\<open>s[lo:hi]\<close>. Indices are Go \<^verbatim>\<open>int\<close>s read as numbers; an index
  outside the bounds panics, which is \<open>None\<close> here. Spare capacity beyond the length is
  not kept: no reachable expression of the sources reads it (see \<open>Write_reslice_dead\<close>).
\<close>

definition make_slice :: "nat \<Rightarrow> byte list" where
  "make_slice n = replicate n 0"

definition copy :: "byte list \<Rightarrow> byte list \<Rightarrow> byte list" where
  "copy dst src = (let k = min (length dst) (length src) in take k src @ drop k dst)"

definition slice_to :: "byte list \<Rightarrow> int \<Rightarrow> byte list option" where
  "slice_to s hi = (if 0 \<le> hi \<and> hi \<le> int (length s) then Some (take (nat hi) s) else None)"

definition slice_from :: "byte list \<Rightarrow> int \<Rightarrow> byte list option" where
  "slice_from s lo = (if 0 \<le> lo \<and> lo \<le> int (length s) then Some (drop (nat lo) s) else None)"

definition slice :: "byte list \<Rightarrow> int \<Rightarrow> int \<Rightarrow> byte list option" where
  "slice s lo hi =
     (if 0 \<le> lo \<and> lo \<le> hi \<and> hi \<le> int (length s)
      then Some (take (nat hi - nat lo) (drop (nat lo) s)) else None)"

subsection \<open>File (file.go)\<close>

record File =
  fAttributes :: Attr
  fData :: "byte list"

definition MAX_FILE_SIZE :: nat where
  "MAX_FILE_SIZE = 536870912"

text \<open>The field-presence mask of a \<^verbatim>\<open>fuse.SetattrRequest\<close>: one flag per method of
  \<^verbatim>\<open>req.Valid\<close> that the sources call.\<close>

record SetattrValid =
  vMode :: bool
  vUid :: bool
  vGid :: bool
  vAtime :: bool
  vMtime :: bool
  vSize :: bool

record SetattrRequest =
  saValid :: SetattrValid
  saMode :: FileMode
  saUid :: uint32
  saGid :: uint32
  saAtime :: time
  saMtime :: time
  saSize :: uint64

record SetattrResponse =
  sarAttr :: Attr

text \<open>
  \<^verbatim>\<open>File.Setattr\<close>. The five attribute assignments come first, as in the source; the
  size branch follows and may return \<^verbatim>\<open>EFBIG\<close> or panic on the state those
  assignments have already produced.
\<close>

definition Setattr :: "File \<Rightarrow> SetattrRequest \<Rightarrow> time \<Rightarrow> SetattrResponse outcome \<times> File" where
  "Setattr file req now =
    (let v = saValid req;
         a1 = (if vMode v then (fAttributes file)\<lparr>Mode := saMode req\<rparr> else fAttributes file);
         a2 = (if vUid v then a1\<lparr>Uid := saUid req\<rparr> else a1);
         a3 = (if vGid v then a2\<lparr>Gid := saGid req\<rparr> else a2);
         a4 = (if vAtime v then a3\<lparr>Atime := saAtime req\<rparr> else a3);
         a5 = (if vMtime v then a4\<lparr>Mtime := saMtime req\<rparr> else a4);
         file5 = file\<lparr>fAttributes := a5\<rparr>
     in if vSize v then
          (let currentSize = int (length (fData file5));
               newSize = sint (saSize req)
           in if newSize < currentSize then
                (case slice_to (fData file5) newSize of
                   None \<Rightarrow> (Panic, file5)
                 | Some d \<Rightarrow>
                     (let a6 = a5\<lparr>Size := saSize req, Mtime := now\<rparr>
                      in (Ok \<lparr>sarAttr = a6\<rparr>, \<lparr>fAttributes = a6, fData = d\<rparr>)))
              else if newSize > currentSize then
                (if newSize > int MAX_FILE_SIZE then (Err EFBIG, file5)
                 else
                   (let newData = copy (make_slice (nat newSize)) (fData file5);
                        a6 = a5\<lparr>Size := saSize req, Mtime := now\<rparr>
                    in (Ok \<lparr>sarAttr = a6\<rparr>, \<lparr>fAttributes = a6, fData = newData\<rparr>)))
              else
                (let a6 = a5\<lparr>Size := saSize req, Mtime := now\<rparr>
                 in (Ok \<lparr>sarAttr = a6\<rparr>, \<lparr>fAttributes = a6, fData = fData file5\<rparr>)))
        else (Ok \<lparr>sarAttr = a5\<rparr>, file5))"

record ReadRequest =
  rdOffset :: int64
  rdSize :: goint

record ReadResponse =
  rrData :: "byte list"

text \<open>
  \<^verbatim>\<open>File.Read\<close>. \<^verbatim>\<open>end := offset + req.Size\<close> is an addition of Go \<^verbatim>\<open>int\<close>s and
  wraps; the comparison with \<^verbatim>\<open>len(file.Data)\<close> and the slice expression read the
  results as signed numbers.
\<close>

definition Read :: "File \<Rightarrow> ReadRequest \<Rightarrow> ReadResponse outcome \<times> File" where
  "Read file req =
    (if sint (rdOffset req) \<ge> int (length (fData file)) then (Ok \<lparr>rrData = []\<rparr>, file)
     else
       (let offset = rdOffset req;
            end0 = offset + rdSize req;
            end1 = (if sint end0 > int (length (fData file)) then int (length (fData file))
                    else sint end0)
        in case slice (fData file) (sint offset) end1 of
             None \<Rightarrow> (Panic, file)
           | Some d \<Rightarrow> (Ok \<lparr>rrData = d\<rparr>, file)))"

record WriteRequest =
  wrOffset :: int64
  wrData :: "byte list"

record WriteResponse =
  wrSize :: goint

text \<open>
  \<^verbatim>\<open>File.Write\<close>. \<open>reqLen\<close>, \<open>newSize\<close>, \<open>fileLen\<close> and \<open>newCapacity\<close> are
  \<^verbatim>\<open>uint64\<close>: the sum wraps and the comparisons are unsigned. The second branch
  compares \<^verbatim>\<open>req.Offset+int64(reqLen)\<close> as a signed number and reslices the buffer
  beyond its length. \<^verbatim>\<open>make\<close> with a length above the capacity panics.
\<close>

definition Write :: "File \<Rightarrow> WriteRequest \<Rightarrow> time \<Rightarrow> WriteResponse outcome \<times> File" where
  "Write file req now =
    (let reqLen = (of_nat (length (wrData req)) :: uint64);
         newSize = wrOffset req + reqLen
     in if unat newSize > MAX_FILE_SIZE then (Err EFBIG, file)
        else
          (let fileLen = (of_nat (length (fData file)) :: uint64);
               grown =
                 (if newSize > fileLen then
                    (let newCapacity0 = (if newSize < fileLen * 2 then fileLen * 2 else newSize);
                         newCapacity = (if unat newCapacity0 > MAX_FILE_SIZE
                                        then of_nat MAX_FILE_SIZE else newCapacity0)
                     in if newSize > newCapacity then None
                        else Some (copy (make_slice (unat newSize)) (fData file)))
                  else if sint (wrOffset req + reqLen) > int (length (fData file)) then
                    slice_to (fData file) (sint (wrOffset req + reqLen))
                  else Some (fData file))
           in case grown of
                None \<Rightarrow> (Panic, file)
              | Some d1 \<Rightarrow>
                  (case slice_from d1 (sint (wrOffset req)) of
                     None \<Rightarrow> (Panic, file\<lparr>fData := d1\<rparr>)
                   | Some dst \<Rightarrow>
                       (let d2 = take (nat (sint (wrOffset req))) d1 @ copy dst (wrData req)
                        in (Ok \<lparr>wrSize = reqLen\<rparr>,
                            \<lparr>fAttributes = (fAttributes file)\<lparr>Size := of_nat (length d2), Mtime := now\<rparr>,
                             fData = d2\<rparr>)))))"

subsection \<open>Inode allocator\<close>

text \<open>
  The process-wide \<^verbatim>\<open>inodeCounter\<close> is threaded through as a value.
  \<^verbatim>\<open>atomic.AddUint64\<close> stores and returns the incremented counter, so the counter has
  already wrapped to zero when \<^verbatim>\<open>GetInodeAndIncrease\<close> panics (\<open>None\<close>).
\<close>

definition GetInodeAndIncrease :: "uint64 \<Rightarrow> uint64 option \<times> uint64" where
  "GetInodeAndIncrease inodeCounter =
     (let new = inodeCounter + 1 in if new = 0 then (None, new) else (Some new, new))"

definition LoadInodeCounter :: "uint64 \<Rightarrow> uint64 \<Rightarrow> uint64" where
  "LoadInodeCounter inodeCounter saved = saved"

definition CurrentInodeCounter :: "uint64 \<Rightarrow> uint64" where
  "CurrentInodeCounter inodeCounter = inodeCounter"

subsection \<open>The encryption provider and the binary codec\<close>

text \<open>
  \<^verbatim>\<open>xbin25.XBin25Config\<close> is used through its two methods only. \<^verbatim>\<open>Unmarshall\<close>
  returns an \<^verbatim>\<open>interface{}\<close>, which the loader asserts to be a byte slice. \<open>None\<close> is
  a returned error.
\<close>

datatype any = Bytes "byte list" | NotBytes

record XBin25Config =
  Marshall :: "byte list \<Rightarrow> byte list option"
  Unmarshall :: "byte list \<Rightarrow> any option"

subsection \<open>Directories and the node tree (node.go)\<close>

text \<open>
  A directory owns its children through the \<^verbatim>\<open>Children\<close> map; the tree is a datatype
  nested through finite maps. \<^verbatim>\<open>fs.Node\<close> has the two dynamic types \<^verbatim>\<open>*Dir\<close> and
  \<^verbatim>\<open>*File\<close>.
\<close>

datatype Dir = Dir (dAttributes: Attr) (dChildren: "(string, Node) fmap") (dConfig: XBin25Config)
  and Node = DirNode Dir | FileNode File

definition hasWritePermission :: "uint32 \<Rightarrow> uint32 \<Rightarrow> Attr \<Rightarrow> bool" where
  "hasWritePermission uid gid attr =
     (if uid = Uid attr then Mode attr AND 128 \<noteq> 0
      else if gid = Gid attr then Mode attr AND 16 \<noteq> 0
      else Mode attr AND 2 \<noteq> 0)"

text \<open>
  Modelled from the spec: \<^verbatim>\<open>ValidateName\<close> is called by \<^verbatim>\<open>Mkdir\<close> and \<^verbatim>\<open>Remove\<close>
  but its body is not among the sources. The specification gives its contract: a name
  that is empty, \<^verbatim>\<open>.\<close>, \<^verbatim>\<open>..\<close> or contains a path separator is rejected as an invalid
  name; every other name passes.
\<close>

definition ValidateName :: "string \<Rightarrow> errno option" where
  "ValidateName name =
     (if name = [] \<or> name = ''.'' \<or> name = ''..'' \<or> CHR ''/'' \<in> set name
      then Some EINVAL else None)"

record MkdirRequest =
  mkHeader :: Header
  mkName :: string
  mkMode :: FileMode

definition Mkdir :: "Dir \<Rightarrow> uint64 \<Rightarrow> MkdirRequest \<Rightarrow> time \<Rightarrow> Node outcome \<times> Dir \<times> uint64" where
  "Mkdir directory inodeCounter req now =
    (let name = mkName req
     in case ValidateName name of
          Some err \<Rightarrow> (Err err, directory, inodeCounter)
        | None \<Rightarrow>
           if fmlookup (dChildren directory) name \<noteq> None then (Err EEXIST, directory, inodeCounter)
           else if hUid (mkHeader req) \<noteq> Uid (dAttributes directory)
             then (Err EPERM, directory, inodeCounter)
           else if hGid (mkHeader req) \<noteq> Gid (dAttributes directory)
             then (Err EPERM, directory, inodeCounter)
           else
             (let safePerm = Perm (mkMode req) AND 511
              in case GetInodeAndIncrease inodeCounter of
                   (None, counter') \<Rightarrow> (Panic, directory, counter')
                 | (Some ino, counter') \<Rightarrow>
                     (let dir = Dir (zeroAttr\<lparr>Inode := ino, Mode := ModeDir OR safePerm,
                                       Atime := now, Mtime := now, Ctime := now,
                                       Uid := hUid (mkHeader req), Gid := hGid (mkHeader req)\<rparr>)
                                    fmempty (dConfig directory)
                      in (Ok (DirNode dir),
                          Dir ((dAttributes directory)\<lparr>Ctime := now, Mtime := now\<rparr>)
                              (fmupd name (DirNode dir) (dChildren directory))
                              (dConfig directory),
                          counter'))))"

record RemoveRequest =
  rmHeader :: Header
  rmName :: string

text \<open>\<^verbatim>\<open>Remove\<close> reads the clock twice: \<open>now1\<close> for \<^verbatim>\<open>Mtime\<close>, \<open>now2\<close> for \<^verbatim>\<open>Ctime\<close>.\<close>

definition Remove :: "Dir \<Rightarrow> RemoveRequest \<Rightarrow> time \<Rightarrow> time \<Rightarrow> unit outcome \<times> Dir" where
  "Remove directory req now1 now2 =
    (let name = rmName req
     in case ValidateName name of
          Some err \<Rightarrow> (Err err, directory)
        | None \<Rightarrow>
           if fmlookup (dChildren directory) name = None then (Err ENOENT, directory)
           else if hUid (rmHeader req) \<noteq> Uid (dAttributes directory) then (Err EPERM, directory)
           else if hGid (rmHeader req) \<noteq> Gid (dAttributes directory) then (Err EPERM, directory)
           else (Ok (),
                 Dir ((dAttributes directory)\<lparr>Mtime := now1, Ctime := now2\<rparr>)
                     (fmdrop name (dChildren directory))
                     (dConfig directory)))"

subsection \<open>Rename\<close>

text \<open>
  \<^verbatim>\<open>filepath.Base\<close> on a system whose separator is \<^verbatim>\<open>/\<close> and whose volume names are
  empty: the empty path gives \<^verbatim>\<open>.\<close>; trailing separators are stripped; the part after
  the last separator is kept; a path of separators only gives a single separator.
\<close>

definition IsPathSeparator :: "char \<Rightarrow> bool" where
  "IsPathSeparator c = (c = CHR ''/'')"

definition Base :: "string \<Rightarrow> string" where
  "Base path =
     (if path = [] then ''.''
      else
        (let stripped = rev (dropWhile IsPathSeparator (rev path));
             element = rev (takeWhile (\<lambda>c. \<not> IsPathSeparator c) (rev stripped))
         in if element = [] then ''/'' else element))"

text \<open>
  \<^verbatim>\<open>Rename\<close> works on two directory objects through pointers which may be the same
  pointer, and it tests the pointers for equality. The two objects therefore live in a
  store of directory objects indexed by address; the receiver and \<^verbatim>\<open>newDir\<close> are
  addresses, and \<^verbatim>\<open>newDir\<close> may also be a file node. The assignments are applied to the
  store one after the other, in the order of the source. A child is an entry of the
  \<^verbatim>\<open>Children\<close> map; \<^verbatim>\<open>Rename\<close> moves the entry and never looks inside it. A nil
  pointer is an address with no object and dereferencing it panics. The third component
  of the result lists the addresses whose \<^verbatim>\<open>Mux.Lock()\<close> was called, in the order of
  the calls.
\<close>

type_synonym addr = nat
type_synonym store = "addr \<Rightarrow> Dir option"

datatype NodeRef = DirRef addr | FileRef addr

record RenameRequest =
  rnHeader :: Header
  rnOldName :: string
  rnNewName :: string

definition deleteChild :: "store \<Rightarrow> addr \<Rightarrow> string \<Rightarrow> store" where
  "deleteChild st a name =
     (case st a of None \<Rightarrow> st
      | Some d \<Rightarrow> st(a \<mapsto> Dir (dAttributes d) (fmdrop name (dChildren d)) (dConfig d)))"

definition setChild :: "store \<Rightarrow> addr \<Rightarrow> string \<Rightarrow> Node \<Rightarrow> store" where
  "setChild st a name child =
     (case st a of None \<Rightarrow> st
      | Some d \<Rightarrow> st(a \<mapsto> Dir (dAttributes d) (fmupd name child (dChildren d)) (dConfig d)))"

definition setTimes :: "store \<Rightarrow> addr \<Rightarrow> time \<Rightarrow> store" where
  "setTimes st a now =
     (case st a of None \<Rightarrow> st
      | Some d \<Rightarrow> st(a \<mapsto> Dir ((dAttributes d)\<lparr>Mtime := now, Ctime := now\<rparr>) (dChildren d) (dConfig d)))"

definition Rename ::
    "store \<Rightarrow> addr \<Rightarrow> RenameRequest \<Rightarrow> NodeRef \<Rightarrow> time \<Rightarrow> unit outcome \<times> store \<times> addr list" where
  "Rename st directory req newDir now =
    (if rnNewName req \<noteq> Base (rnNewName req) \<or> rnNewName req = ''..'' \<or> rnNewName req = ''.''
       then (Err EINVAL, st, [])
     else if rnOldName req \<noteq> Base (rnOldName req) \<or> rnOldName req = ''..'' \<or> rnOldName req = ''.''
       then (Err EINVAL, st, [])
     else case newDir of
       FileRef _ \<Rightarrow> (Err EINVAL, st, [])
     | DirRef targetDir \<Rightarrow>
        (case (st directory, st targetDir) of
           (Some d, Some t) \<Rightarrow>
             if \<not> hasWritePermission (hUid (rnHeader req)) (hGid (rnHeader req)) (dAttributes d)
                \<or> \<not> hasWritePermission (hUid (rnHeader req)) (hGid (rnHeader req)) (dAttributes t)
             then (Err EACCES, st, [])
             else
               (let (first, second) =
                      (if Inode (dAttributes d) > Inode (dAttributes t)
                       then (targetDir, directory) else (directory, targetDir));
                    locks = (if first \<noteq> second then [first, second] else [first])
                in case fmlookup (dChildren d) (rnOldName req) of
                     None \<Rightarrow> (Err ENOENT, st, locks)
                   | Some child \<Rightarrow>
                       (let st1 = deleteChild st targetDir (rnNewName req);
                            st2 = deleteChild st1 directory (rnOldName req);
                            st3 = setChild st2 targetDir (rnNewName req) child;
                            st4 = setTimes st3 directory now;
                            st5 = setTimes st4 targetDir now
                        in (Ok (), st5, locks)))
         | _ \<Rightarrow> (Panic, st, [])))"

subsection \<open>Two renames taking their locks\<close>

text \<open>
  A thread is the list of locks it holds and the list of \<^verbatim>\<open>Lock()\<close> calls it has still
  to make. \<^verbatim>\<open>sync.RWMutex.Lock\<close> blocks while any thread, the caller included, holds
  the lock. A thread with no call left runs to its return, where the deferred unlocks
  release everything it holds.
\<close>

type_synonym thread = "addr list \<times> addr list"

fun enabled :: "thread \<Rightarrow> thread \<Rightarrow> bool" where
  "enabled (h, []) other = (h \<noteq> [])"
| "enabled (h, l # ls) other = (l \<notin> set h \<and> l \<notin> set (fst other))"

fun advance :: "thread \<Rightarrow> thread" where
  "advance (h, []) = ([], [])"
| "advance (h, l # ls) = (l # h, ls)"

fun finished :: "thread \<Rightarrow> bool" where
  "finished (h, p) = (h = [] \<and> p = [])"

inductive lock_step :: "thread \<times> thread \<Rightarrow> thread \<times> thread \<Rightarrow> bool" where
  left: "enabled t1 t2 \<Longrightarrow> lock_step (t1, t2) (advance t1, t2)"
| right: "enabled t2 t1 \<Longrightarrow> lock_step (t1, t2) (t1, advance t2)"

definition deadlocked :: "thread \<times> thread \<Rightarrow> bool" where
  "deadlocked s =
     (\<not> (finished (fst s) \<and> finished (snd s)) \<and> \<not> enabled (fst s) (snd s) \<and> \<not> enabled (snd s) (fst s))"

subsection \<open>Snapshot codec and persistence (serialization.go)\<close>

record SerializableFile =
  sfAttributes :: Attr
  sfData :: "byte list"

text \<open>The pointers \<^verbatim>\<open>*SerializableDir\<close> and \<^verbatim>\<open>*SerializableFile\<close> may be nil.\<close>

datatype SerializableDir =
    SerializableDir (sdAttributes: Attr) (sdChildren: "(string, SerializableNode) fmap")
  and SerializableNode =
    SerializableNode (snType: string) (snDir: "SerializableDir option")
                     (snFile: "SerializableFile option")

record SerializableX25fs =
  Version :: uint32
  RootDir :: "SerializableDir option"
  InodeCounter :: uint64

definition X25FS_VERSION :: uint32 where
  "X25FS_VERSION = 10000"

text \<open>The filesystem object; the sources use its field \<^verbatim>\<open>RootDir\<close> only.\<close>

record X25fs =
  xRootDir :: Dir

primrec SerializeDir :: "Dir \<Rightarrow> SerializableDir"
  and SerializeNode :: "Node \<Rightarrow> SerializableNode" where
  "SerializeDir (Dir attrs children cfg) = SerializableDir attrs (fmmap SerializeNode children)"
| "SerializeNode (DirNode n) = SerializableNode ''dir'' (Some (SerializeDir n)) None"
| "SerializeNode (FileNode n) =
     SerializableNode ''file'' None (Some \<lparr>sfAttributes = fAttributes n, sfData = fData n\<rparr>)"

text \<open>
  One round of the loop of \<^verbatim>\<open>DeserializeDir\<close> either stores a child, or matches no
  case of the switch and stores nothing, or dereferences a nil pointer.
\<close>

datatype entry = Store Node | NoCase | NilPointer

fun stored :: "entry \<Rightarrow> Node option" where
  "stored (Store n) = Some n"
| "stored _ = None"

definition collect :: "(string, entry) fmap \<Rightarrow> (string, Node) fmap option" where
  "collect r =
     (if NilPointer |\<in>| fmran r then None
      else Some (fmmap (\<lambda>e. the (stored e)) (fmfilter (\<lambda>k. Option.bind (fmlookup r k) stored \<noteq> None) r)))"

primrec DeserializeDir :: "SerializableDir \<Rightarrow> XBin25Config \<Rightarrow> Dir option"
  and DeserializeNode :: "SerializableNode \<Rightarrow> XBin25Config \<Rightarrow> entry" where
  "DeserializeDir (SerializableDir attrs children) cfg =
     (case collect (fmmap (\<lambda>node. DeserializeNode node cfg) children) of
        None \<Rightarrow> None
      | Some ch \<Rightarrow> Some (Dir attrs ch cfg))"
| "DeserializeNode (SerializableNode type d f) cfg =
     (if type = ''dir'' then
        (case map_option (\<lambda>sd. DeserializeDir sd cfg) d of
           Some (Some dir) \<Rightarrow> Store (DirNode dir)
         | _ \<Rightarrow> NilPointer)
      else if type = ''file'' then
        (case f of
           Some sf \<Rightarrow> Store (FileNode \<lparr>fAttributes = sfAttributes sf, fData = sfData sf\<rparr>)
         | None \<Rightarrow> NilPointer)
      else NoCase)"

text \<open>
  The binary codec (\<^verbatim>\<open>msgpack.Marshal\<close>, \<^verbatim>\<open>msgpack.Unmarshal\<close>) and the disk are
  outside the repository. The codec is a pair of functions, \<open>None\<close> being a returned
  error; the disk maps a path to the bytes stored there, \<^verbatim>\<open>os.ReadFile\<close> is a
  lookup, and \<^verbatim>\<open>renameio.WriteFile\<close> either fails and leaves the disk as it was or
  replaces the file as a whole.
\<close>

record Msgpack =
  Marshal :: "SerializableX25fs \<Rightarrow> byte list option"
  Unmarshal :: "byte list \<Rightarrow> SerializableX25fs option"

type_synonym disk = "string \<Rightarrow> byte list option"

datatype save_error = EncodeFailed | EncryptionFailed | AtomicWriteFailed

definition SaveData ::
    "Msgpack \<Rightarrow> bool \<Rightarrow> X25fs \<Rightarrow> XBin25Config \<Rightarrow> string \<Rightarrow> uint64 \<Rightarrow> disk \<Rightarrow> save_error option \<times> disk" where
  "SaveData msgpack writable xfs cfg diskFile inodeCounter dsk =
    (let sxfs = \<lparr>Version = X25FS_VERSION,
                 RootDir = Some (SerializeDir (xRootDir xfs)),
                 InodeCounter = CurrentInodeCounter inodeCounter\<rparr>
     in case Marshal msgpack sxfs of
          None \<Rightarrow> (Some EncodeFailed, dsk)
        | Some buf \<Rightarrow>
           (case Marshall cfg buf of
              None \<Rightarrow> (Some EncryptionFailed, dsk)
            | Some encrypted \<Rightarrow>
               if writable then (None, dsk(diskFile \<mapsto> encrypted))
               else (Some AtomicWriteFailed, dsk)))"

datatype load_error =
    ReadFailed | DecryptionFailed | NotByteSlice | DecodeFailed
  | UnmatchedVersion uint32 uint32

datatype load_result = Loaded X25fs | LoadError load_error | LoadPanic

text \<open>\<^verbatim>\<open>LoadData\<close> returns its result and the inode counter it leaves behind.\<close>

definition LoadData ::
    "Msgpack \<Rightarrow> XBin25Config \<Rightarrow> string \<Rightarrow> uint64 \<Rightarrow> disk \<Rightarrow> load_result \<times> uint64" where
  "LoadData msgpack cfg diskFile inodeCounter dsk =
    (case dsk diskFile of
       None \<Rightarrow> (LoadError ReadFailed, inodeCounter)
     | Some encrypted \<Rightarrow>
        (case Unmarshall cfg encrypted of
           None \<Rightarrow> (LoadError DecryptionFailed, inodeCounter)
         | Some NotBytes \<Rightarrow> (LoadError NotByteSlice, inodeCounter)
         | Some (Bytes msgpackBytes) \<Rightarrow>
            (case Unmarshal msgpack msgpackBytes of
               None \<Rightarrow> (LoadError DecodeFailed, inodeCounter)
             | Some sxfs \<Rightarrow>
                if Version sxfs \<noteq> X25FS_VERSION
                then (LoadError (UnmatchedVersion X25FS_VERSION (Version sxfs)), inodeCounter)
                else
                  (let counter' = LoadInodeCounter inodeCounter (InodeCounter sxfs)
                   in case Option.bind (RootDir sxfs) (\<lambda>sd. DeserializeDir sd cfg) of
                        None \<Rightarrow> (LoadPanic, counter')
                      | Some root \<Rightarrow> (Loaded \<lparr>xRootDir = root\<rparr>, counter')))))"

subsection \<open>The result of a write, and sample inputs\<close>

text \<open>
  The buffer after writing \<open>bytes\<close> at offset \<open>off\<close> into \<open>old\<close>: the old content,
  extended by zeros up to the end of the write if it is shorter, with \<open>bytes\<close> laid over
  it from \<open>off\<close> on. \<open>Write_in_range\<close> shows that \<open>Write\<close> computes it.
\<close>

definition written :: "byte list \<Rightarrow> nat \<Rightarrow> byte list \<Rightarrow> byte list" where
  "written old off bytes =
     take off (old @ replicate (off + length bytes - length old) 0) @ bytes
       @ drop (off + length bytes) old"

definition file0 :: File where
  "file0 = \<lparr>fAttributes = zeroAttr\<lparr>Inode := 3, Size := 3, Mode := 420, Uid := 1000, Gid := 1000\<rparr>,
            fData = [1, 2, 3]\<rparr>"

section \<open>Properties\<close>

subsection \<open>Word arithmetic of offsets and lengths\<close>

lemma uint_add_of_nat: "uint (off + of_nat n :: 64 word) = take_bit 64 (sint off + int n)"
proof -
  have "off + of_nat n = (word_of_int (sint off + int n) :: 64 word)" by simp
  then show ?thesis by (simp only: uint_word_of_int_eq) simp
qed

lemma newSize_exact:
  assumes "n < 2 ^ 63" "0 \<le> sint off + int n"
  shows "int (unat (off + of_nat n :: 64 word)) = sint off + int n"
proof -
  have "sint off < 2 ^ 63" using sint_lt [of off] by simp
  with assms have "sint off + int n < 2 ^ 64" by simp
  with assms(2) have "take_bit 64 (sint off + int n) = sint off + int n"
    by (simp add: take_bit_int_eq_self)
  then show ?thesis by (simp add: uint_add_of_nat)
qed

lemma sint_small: "unat (w :: 64 word) < 2 ^ 63 \<Longrightarrow> sint w = int (unat w)"
proof -
  assume a: "unat w < 2 ^ 63"
  have b: "uint w < 2 ^ 63"
    using a by (metis of_nat_less_iff of_nat_numeral of_nat_power uint_nat)
  have c: "- (2 ^ 63) \<le> uint w" by (rule order_trans [of _ 0]) simp_all
  have "sint w = signed_take_bit 63 (uint w)" by (simp add: sint_uint)
  also have "\<dots> = uint w" using signed_take_bit_int_eq_self [of 63 "uint w", OF c b] .
  finally show ?thesis by (simp only: uint_nat)
qed

lemma unat_len64: "n < 2 ^ 63 \<Longrightarrow> unat (of_nat n :: 64 word) = n"
  by (simp add: unat_of_nat take_bit_nat_eq_self)

lemma MAX_lt: "MAX_FILE_SIZE < 2 ^ 63"
  by (simp add: MAX_FILE_SIZE_def)

lemma unat_MAX: "unat (of_nat MAX_FILE_SIZE :: 64 word) = MAX_FILE_SIZE"
  by (simp add: MAX_FILE_SIZE_def)

subsection \<open>Slices\<close>

lemma copy_same_length: "length dst = length src \<Longrightarrow> copy dst src = src"
  by (simp add: copy_def)

lemma copy_make: "length src \<le> n \<Longrightarrow> copy (make_slice n) src = src @ replicate (n - length src) 0"
  by (simp add: copy_def make_slice_def min_def)

lemma copy_prefix: "length src \<le> length dst \<Longrightarrow> copy dst src = src @ drop (length src) dst"
  by (simp add: copy_def min_def)

lemma length_written: "length (written old off bytes) = max (length old) (off + length bytes)"
  by (simp add: written_def)

lemma drop_written: "drop off (written old off bytes) = bytes @ drop (off + length bytes) old"
proof -
  have "length (take off (old @ replicate (off + length bytes - length old) 0)) = off"
    by simp
  then show ?thesis unfolding written_def by (metis append_eq_conv_conj)
qed

subsection \<open>Write\<close>

text \<open>
  C2. A write whose end, the offset plus the number of bytes, lies beyond
  \<open>MAX_FILE_SIZE\<close> returns \<^verbatim>\<open>EFBIG\<close> and leaves the file, buffer and attributes, exactly
  as it was. The offset is any \<^verbatim>\<open>int64\<close>, negative ones included; the byte slice has a
  length a Go slice can have.
\<close>

theorem Write_too_large_unchanged:
  assumes "length (wrData req) < 2 ^ 63"
    and "sint (wrOffset req) + int (length (wrData req)) > int MAX_FILE_SIZE"
  shows "Write file req now = (Err EFBIG, file)"
proof -
  have "int (unat (wrOffset req + of_nat (length (wrData req)) :: 64 word))
          = sint (wrOffset req) + int (length (wrData req))"
    using assms by (intro newSize_exact) simp_all
  with assms(2)
  have "unat (wrOffset req + of_nat (length (wrData req)) :: 64 word) > MAX_FILE_SIZE"
    by linarith
  then show ?thesis by (simp add: Write_def Let_def)
qed

theorem Write_too_large_unchanged_witness:
  "length (wrData \<lparr>wrOffset = 536870912, wrData = [7]\<rparr>) < 2 ^ 63
   \<and> sint (wrOffset \<lparr>wrOffset = 536870912, wrData = [7]\<rparr>)
        + int (length (wrData \<lparr>wrOffset = 536870912, wrData = [7]\<rparr>)) > int MAX_FILE_SIZE
   \<and> Write file0 \<lparr>wrOffset = 536870912, wrData = [7]\<rparr> 5 = (Err EFBIG, file0)"
  using Write_too_large_unchanged [of "\<lparr>wrOffset = 536870912, wrData = [7]\<rparr>" file0 5]
  by (simp add: MAX_FILE_SIZE_def)

text \<open>
  The closed form of a write that starts at a non-negative offset and ends within the
  cap: it succeeds, reports the number of bytes, and the buffer is \<open>written\<close>.
\<close>

lemma Write_in_range:
  assumes L: "length (fData file) < 2 ^ 63"
    and off0: "0 \<le> sint (wrOffset req)"
    and cap: "sint (wrOffset req) + int (length (wrData req)) \<le> int MAX_FILE_SIZE"
  shows "Write file req now =
     (Ok \<lparr>wrSize = of_nat (length (wrData req))\<rparr>,
      \<lparr>fAttributes = (fAttributes file)\<lparr>
           Size := of_nat (length (written (fData file) (nat (sint (wrOffset req))) (wrData req))),
           Mtime := now\<rparr>,
       fData = written (fData file) (nat (sint (wrOffset req))) (wrData req)\<rparr>)"
proof -
  define off where "off = nat (sint (wrOffset req))"
  define n where "n = length (wrData req)"
  define D where "D = fData file"
  define newSize where "newSize = wrOffset req + (of_nat n :: 64 word)"
  have soff: "sint (wrOffset req) = int off" using off0 by (simp add: off_def)
  have nM: "off + n \<le> MAX_FILE_SIZE" using cap soff by (simp add: n_def)
  have n63: "n < 2 ^ 63" using nM MAX_lt by linarith
  have "int (unat newSize) = sint (wrOffset req) + int n"
    unfolding newSize_def using n63 off0 by (intro newSize_exact) simp_all
  then have uns: "unat newSize = off + n" using soff by linarith
  have sns: "sint newSize = int (off + n)"
    using sint_small [of newSize] uns nM MAX_lt by simp
  have ufl: "unat (of_nat (length D) :: 64 word) = length D"
    using L by (simp add: unat_len64 D_def)
  show ?thesis
  proof (cases "off + n > length D")
    case True
    define d1 where "d1 = D @ replicate (off + n - length D) 0"
    have mk: "copy (make_slice (off + n)) D = d1"
      using True by (simp add: copy_make d1_def)
    have sf: "slice_from d1 (int off) = Some (drop off d1)"
      using True by (simp add: slice_from_def d1_def)
    have len: "length (drop off d1) = n"
      using True by (simp add: d1_def)
    have cp: "copy (drop off d1) (wrData req) = wrData req"
      using len by (intro copy_same_length) (simp add: n_def)
    have wr: "written D off (wrData req) = take off d1 @ wrData req"
      using True by (simp add: written_def d1_def n_def [symmetric])
    show ?thesis
      using True nM
      unfolding Write_def Let_def
      by (simp add: newSize_def [symmetric] n_def [symmetric] D_def [symmetric] off_def [symmetric]
            soff uns mk sf cp wr word_less_nat_alt unat_MAX ufl)
  next
    case False
    have nosl: "\<not> sint newSize > int (length D)" using sns False by simp
    have sf: "slice_from D (int off) = Some (drop off D)"
      using False by (simp add: slice_from_def)
    have cp: "copy (drop off D) (wrData req) = wrData req @ drop (off + n) D"
      using False by (simp add: copy_prefix n_def add.commute)
    have wr: "written D off (wrData req) = take off D @ wrData req @ drop (off + n) D"
      using False by (simp add: written_def n_def [symmetric])
    show ?thesis
      using False nM nosl
      unfolding Write_def Let_def
      by (simp add: newSize_def [symmetric] n_def [symmetric] D_def [symmetric] off_def [symmetric]
            soff uns sf cp wr word_less_nat_alt unat_MAX ufl)
  qed
qed

subsection \<open>Read\<close>

text \<open>
  The closed form of a read whose offset and size are non-negative and whose end is a
  representable \<^verbatim>\<open>int\<close>: the bytes from the offset on, at most \<open>size\<close> of them. \<open>take\<close>
  and \<open>drop\<close> stop at the end of the list, which is the clamping.
\<close>

lemma Read_in_range:
  assumes "0 \<le> sint (rdOffset req)" "0 \<le> sint (rdSize req)"
    and "sint (rdOffset req) + sint (rdSize req) < 2 ^ 63"
  shows "Read file req =
     (Ok \<lparr>rrData = take (nat (sint (rdSize req))) (drop (nat (sint (rdOffset req))) (fData file))\<rparr>,
      file)"
proof -
  define off where "off = nat (sint (rdOffset req))"
  define sz where "sz = nat (sint (rdSize req))"
  have soff: "sint (rdOffset req) = int off" and ssz: "sint (rdSize req) = int sz"
    using assms by (simp_all add: off_def sz_def)
  have "sint (rdOffset req + rdSize req)
          = signed_take_bit 63 (sint (rdOffset req) + sint (rdSize req))"
    by (simp add: sint_word_add)
  also have "\<dots> = sint (rdOffset req) + sint (rdSize req)"
    using assms signed_take_bit_int_eq_self [of 63 "sint (rdOffset req) + sint (rdSize req)"]
    by linarith
  finally have se: "sint (rdOffset req + rdSize req) = int (off + sz)"
    by (simp add: soff ssz)
  show ?thesis
  proof (cases "length (fData file) \<le> off")
    case True
    then show ?thesis by (simp add: Read_def soff off_def [symmetric] sz_def [symmetric])
  next
    case False
    then show ?thesis
      by (simp add: Read_def Let_def soff ssz se slice_def off_def [symmetric] sz_def [symmetric]
            min_def nat_int_add)
  qed
qed

text \<open>
  C5. A write that starts at a non-negative offset and ends within the size cap
  succeeds, and a read at the same offset for the same number of bytes then returns
  exactly the bytes written.
\<close>

theorem Write_then_Read_roundtrip:
  assumes "length (fData file) < 2 ^ 63"
    and "0 \<le> sint (wrOffset req)"
    and "sint (wrOffset req) + int (length (wrData req)) \<le> int MAX_FILE_SIZE"
    and "Write file req now = (res, file')"
  shows "res = Ok \<lparr>wrSize = of_nat (length (wrData req))\<rparr> \<and>
         Read file' \<lparr>rdOffset = wrOffset req, rdSize = of_nat (length (wrData req))\<rparr>
           = (Ok \<lparr>rrData = wrData req\<rparr>, file')"
proof -
  define n where "n = length (wrData req)"
  define off where "off = nat (sint (wrOffset req))"
  have soff: "sint (wrOffset req) = int off" using assms(2) by (simp add: off_def)
  have nM: "off + n \<le> MAX_FILE_SIZE" using assms(3) soff by (simp add: n_def)
  have n63: "n < 2 ^ 63" using nM MAX_lt by linarith
  have u: "unat (of_nat n :: 64 word) = n" using n63 by (rule unat_len64)
  have sn: "sint (of_nat n :: 64 word) = int n"
    by (metis sint_small u n63)
  from Write_in_range [OF assms(1-3), of now] assms(4)
  have res: "res = Ok \<lparr>wrSize = of_nat n\<rparr>"
    and fd: "fData file' = written (fData file) off (wrData req)"
    by (auto simp add: n_def off_def)
  have "int off + int n < 2 ^ 63"
    using nM by (simp add: MAX_FILE_SIZE_def)
  then have "sint (wrOffset req) + sint (of_nat n :: 64 word) < 2 ^ 63"
    by (simp only: soff sn)
  with Read_in_range [of "\<lparr>rdOffset = wrOffset req, rdSize = of_nat n\<rparr>" file'] assms(2) sn
  have "Read file' \<lparr>rdOffset = wrOffset req, rdSize = of_nat n\<rparr>
          = (Ok \<lparr>rrData = take n (drop off (fData file'))\<rparr>, file')"
    by (simp add: soff)
  moreover have "take n (drop off (fData file')) = wrData req"
    by (simp add: fd drop_written n_def)
  ultimately show ?thesis using res by (simp add: n_def)
qed

theorem Write_then_Read_roundtrip_witness:
  "length (fData file0) < 2 ^ 63
   \<and> 0 \<le> sint (wrOffset \<lparr>wrOffset = 2, wrData = [9, 8]\<rparr>)
   \<and> fst (Write file0 \<lparr>wrOffset = 2, wrData = [9, 8]\<rparr> 5) = Ok \<lparr>wrSize = 2\<rparr>
   \<and> Read (snd (Write file0 \<lparr>wrOffset = 2, wrData = [9, 8]\<rparr> 5)) \<lparr>rdOffset = 2, rdSize = 2\<rparr>
       = (Ok \<lparr>rrData = [9, 8]\<rparr>, snd (Write file0 \<lparr>wrOffset = 2, wrData = [9, 8]\<rparr> 5))"
  using Write_then_Read_roundtrip [of file0 "\<lparr>wrOffset = 2, wrData = [9, 8]\<rparr>" 5
      "fst (Write file0 \<lparr>wrOffset = 2, wrData = [9, 8]\<rparr> 5)"
      "snd (Write file0 \<lparr>wrOffset = 2, wrData = [9, 8]\<rparr> 5)"]
  by (simp add: file0_def MAX_FILE_SIZE_def)

text \<open>
  C6, as the claim states it, fails: a request with a negative offset reaches the slice
  expression \<^verbatim>\<open>file.Data[offset:end]\<close> and panics.
\<close>

theorem Read_negative_offset_panics:
  "Read file0 \<lparr>rdOffset = - 1, rdSize = 1\<rparr> = (Panic, file0)"
  by (simp add: Read_def file0_def slice_def Let_def)

text \<open>
  C6, amended. An offset at or past the end of the data yields an empty result, without
  error, whatever the size. A request with a non-negative offset and size whose end is a
  representable \<^verbatim>\<open>int\<close> yields the requested range clamped to the buffer's length,
  without error. In both cases the file is unchanged.
\<close>

theorem Read_clamped:
  "(int (length (fData file)) \<le> sint (rdOffset req) \<longrightarrow>
      Read file req = (Ok \<lparr>rrData = []\<rparr>, file))
   \<and> (0 \<le> sint (rdOffset req) \<and> 0 \<le> sint (rdSize req)
        \<and> sint (rdOffset req) + sint (rdSize req) < 2 ^ 63 \<longrightarrow>
      Read file req =
        (Ok \<lparr>rrData = take (nat (sint (rdSize req))) (drop (nat (sint (rdOffset req))) (fData file))\<rparr>,
         file))"
proof (intro conjI impI)
  assume "int (length (fData file)) \<le> sint (rdOffset req)"
  then show "Read file req = (Ok \<lparr>rrData = []\<rparr>, file)" by (simp add: Read_def)
next
  assume "0 \<le> sint (rdOffset req) \<and> 0 \<le> sint (rdSize req)
        \<and> sint (rdOffset req) + sint (rdSize req) < 2 ^ 63"
  then show "Read file req =
        (Ok \<lparr>rrData = take (nat (sint (rdSize req))) (drop (nat (sint (rdOffset req))) (fData file))\<rparr>,
         file)"
    by (intro Read_in_range) simp_all
qed

theorem Read_clamped_witness:
  "int (length (fData file0)) \<le> sint (rdOffset \<lparr>rdOffset = 3, rdSize = 2\<rparr>)
   \<and> Read file0 \<lparr>rdOffset = 3, rdSize = 2\<rparr> = (Ok \<lparr>rrData = []\<rparr>, file0)
   \<and> sint (rdOffset \<lparr>rdOffset = 1, rdSize = 5\<rparr>) + sint (rdSize \<lparr>rdOffset = 1, rdSize = 5\<rparr>) < 2 ^ 63
   \<and> Read file0 \<lparr>rdOffset = 1, rdSize = 5\<rparr> = (Ok \<lparr>rrData = [2, 3]\<rparr>, file0)"
  using Read_clamped [of file0 "\<lparr>rdOffset = 3, rdSize = 2\<rparr>"]
        Read_clamped [of file0 "\<lparr>rdOffset = 1, rdSize = 5\<rparr>"]
  by (simp add: file0_def)

end
